theory Spec2Isabelle
  imports Main "HOL-Library.Word"
begin

section \<open>The read-query service of rpc/blockchain.go\<close>

text \<open>
  A shallow embedding of \<^verbatim>\<open>PublicBlockchainService\<close> (rpc/blockchain.go): the
  admission gate \<^verbatim>\<open>wait\<close>, the block queries, the signer resolver
  \<^verbatim>\<open>getSignerData\<close> and the three LRU caches of \<^verbatim>\<open>bcServiceHelper\<close>.

  Go's \<^verbatim>\<open>int64\<close> and \<^verbatim>\<open>uint64\<close> are both \<open>64 word\<close>: a conversion between them keeps
  the bits, \<open>sint\<close> reads the signed value and \<open>unat\<close> the unsigned one. A Go result
  \<^verbatim>\<open>(value, error)\<close> is a sum \<open>error + value\<close>, with \<open>Inl\<close> the error. Calls to the
  metrics and logging hooks (\<^verbatim>\<open>DoMetricRPCRequest\<close>, \<^verbatim>\<open>DoMetricRPCQueryInfo\<close>,
  \<^verbatim>\<open>utils.Logger\<close>) have no effect on any result and are left out.
\<close>

subsection \<open>Data\<close>

type_synonym int64 = "64 word"
type_synonym uint64 = "64 word"

text \<open>\<^verbatim>\<open>rpc.BlockNumber\<close> is an \<^verbatim>\<open>int64\<close> with two sentinels.\<close>

type_synonym BlockNumber = int64

definition LatestBlockNumber :: BlockNumber where
  "LatestBlockNumber = - 1"

definition PendingBlockNumber :: BlockNumber where
  "PendingBlockNumber = - 2"

text \<open>
  \<^verbatim>\<open>Version\<close> is an integer type with the named values \<^verbatim>\<open>V1\<close>, \<^verbatim>\<open>V2\<close> and \<^verbatim>\<open>Eth\<close>;
  every \<^verbatim>\<open>switch\<close> of the file has a \<^verbatim>\<open>default\<close> branch for any other value.
\<close>

datatype Version = V1 | V2 | Eth | OtherVersion nat

datatype error =
    ErrRequestedBlockTooHigh
  | ErrUnknownRPCVersion
  | ErrNotBeaconShard
  | ErrorString string        \<comment> \<open>\<^verbatim>\<open>errors.New\<close>, \<^verbatim>\<open>fmt.Errorf\<close>\<close>
  | ErrWrap error string      \<comment> \<open>\<^verbatim>\<open>errors.Wrap(err, msg)\<close>\<close>
  | ErrExternal nat           \<comment> \<open>an error made by a collaborator\<close>
  | NilPointerPanic

type_synonym Address = nat
type_synonym SerializedPublicKey = nat
type_synonym Mask = nat

text \<open>A committee slot (\<^verbatim>\<open>shard.Slot\<close>): the two fields the file reads.\<close>

record Slot =
  EcdsaAddress :: Address
  BLSPublicKey :: SerializedPublicKey

record Block =
  NumberU64 :: uint64
  Coinbase :: Address
  Epoch :: nat

record BlockArgs =
  WithSigners :: bool
  FullTx :: bool
  InclStaking :: bool

text \<open>
  The dynamic \<^verbatim>\<open>opts interface{}\<close> of the block queries: a \<^verbatim>\<open>*rpc_common.BlockArgs\<close>
  (possibly a nil pointer), a \<^verbatim>\<open>bool\<close>, or a value of any other dynamic type.
\<close>

datatype Opts = OptBlockArgs "BlockArgs option" | OptBool bool | OptOther nat

text \<open>\<^verbatim>\<open>signerData\<close>, the cached signing data of a block.\<close>

record signerData =
  signers :: "string list"
  blsSigners :: "string list"
  slots :: "Slot list"
  mask_sd :: Mask

type_synonym RPCBlock = nat
type_synonym StakingTransactions = nat

datatype Response = HexUint64 uint64 | PlainUint64 uint64

text \<open>\<^verbatim>\<open>rate.Limiter\<close>, as built by \<^verbatim>\<open>rate.NewLimiter(limit, burst)\<close>.\<close>

record Limiter =
  lim_limit :: int
  lim_burst :: nat

subsection \<open>The LRU cache of github.com/hashicorp/golang-lru\<close>

text \<open>
  The library is not part of the repository; its documented behaviour is modelled by a
  list of entries, most recently used first. \<^verbatim>\<open>Get\<close> moves a found entry to the front;
  \<^verbatim>\<open>Add\<close> puts the entry at the front, replacing an entry of the same key, and drops the
  oldest entry when the size is exceeded.
\<close>

record ('k, 'v) lru =
  lru_size :: nat
  lru_items :: "('k \<times> 'v) list"

definition lru_New :: "nat \<Rightarrow> ('k, 'v) lru" where
  "lru_New n = \<lparr>lru_size = n, lru_items = []\<rparr>"

definition lru_remove :: "'k \<Rightarrow> ('k \<times> 'v) list \<Rightarrow> ('k \<times> 'v) list" where
  "lru_remove k xs = filter (\<lambda>e. fst e \<noteq> k) xs"


definition lru_Get :: "('k, 'v) lru \<Rightarrow> 'k \<Rightarrow> 'v option \<times> ('k, 'v) lru" where
  "lru_Get c k =
     (case map_of (lru_items c) k of
        None \<Rightarrow> (None, c)
      | Some v \<Rightarrow> (Some v, c\<lparr>lru_items := (k, v) # lru_remove k (lru_items c)\<rparr>))"

definition lru_Add :: "('k, 'v) lru \<Rightarrow> 'k \<Rightarrow> 'v \<Rightarrow> ('k, 'v) lru" where
  "lru_Add c k v =
     (let items = (k, v) # lru_remove k (lru_items c)
      in c\<lparr>lru_items := (if lru_size c < length items then butlast items else items)\<rparr>)"

subsection \<open>Shared state\<close>

text \<open>
  \<^verbatim>\<open>bcServiceCache\<close>: three LRU caches keyed by block number. The values stored are a
  \<^verbatim>\<open>*signerData\<close> made by \<^verbatim>\<open>&signerData{...}\<close>, a typed staking-transaction list and a
  \<^verbatim>\<open>string\<close>; none of them is a nil interface, so the test \<^verbatim>\<open>ok && x != nil\<close> of the three
  readers is the test \<^verbatim>\<open>ok\<close>.
\<close>

record bcServiceCache =
  signersCache :: "(uint64, signerData) lru"
  stakingTxsCache :: "(uint64, StakingTransactions) lru"
  leaderCache :: "(uint64, string) lru"

text \<open>
  The state the queries share: the caches and the counter of throttled waits
  (\<^verbatim>\<open>rpcRateLimitCounterVec\<close>). Three more fields are bookkeeping of the model, for
  stating how often something was called: \<open>waitCalls\<close> counts the entries of
  \<^verbatim>\<open>wait\<close>, \<open>signerDataCalls\<close> and \<open>stakingTxsCalls\<close> list the block numbers for
  which the helper ran the computation behind a cache.
\<close>

record world =
  cache :: bcServiceCache
  rateLimitCounter :: nat
  waitCalls :: nat
  signerDataCalls :: "uint64 list"
  stakingTxsCalls :: "uint64 list"

subsection \<open>Collaborators\<close>

text \<open>
  \<^verbatim>\<open>*hmy.Harmony\<close> and the other packages the file calls are outside src/. Each call is
  a field of this record, named after the Go call it stands for; the record is a snapshot,
  so a query sees one chain head throughout. Block numbers of the chain
  (\<^verbatim>\<open>Number()\<close>, a \<^verbatim>\<open>*big.Int\<close>) are taken to fit 64 bits, so that \<^verbatim>\<open>Number().Int64()\<close>,
  \<^verbatim>\<open>Number().Uint64()\<close> and \<^verbatim>\<open>NumberU64()\<close> are the same word.
\<close>

record Harmony =
  BlockChain_CurrentHeader_Number :: uint64
    \<comment> \<open>\<^verbatim>\<open>hmy.BlockChain.CurrentHeader().Number()\<close>\<close>
  BlockChain_CurrentBlock_Number :: uint64
    \<comment> \<open>\<^verbatim>\<open>hmy.BlockChain.CurrentBlock().NumberU64()\<close>\<close>
  CurrentBlock_Number :: uint64
    \<comment> \<open>\<^verbatim>\<open>hmy.CurrentBlock().Number()\<close>\<close>
  CurrentBlock_Epoch :: nat
    \<comment> \<open>\<^verbatim>\<open>hmy.CurrentBlock().Epoch()\<close>\<close>
  BlockChain_GetBlockByNumber :: "uint64 \<Rightarrow> Block option"
  IsStaking :: "nat \<Rightarrow> bool"
    \<comment> \<open>\<^verbatim>\<open>hmy.ChainConfig().IsStaking(epoch)\<close>\<close>
  BlocksPerEpoch :: "nat \<Rightarrow> uint64"
    \<comment> \<open>\<^verbatim>\<open>shard.Schedule.InstanceForEpoch(epoch).BlocksPerEpoch()\<close>\<close>
  hmy_GetBlockSigners :: "BlockNumber \<Rightarrow> error + (Slot list \<times> Mask)"
    \<comment> \<open>\<^verbatim>\<open>hmy.GetBlockSigners(ctx, number)\<close>\<close>
  AddressToBech32 :: "Address \<Rightarrow> error + string"
  Bech32ToAddress :: "string \<Rightarrow> error + Address"
  KeyEnabled :: "Mask \<Rightarrow> SerializedPublicKey \<Rightarrow> error + bool"
    \<comment> \<open>\<^verbatim>\<open>mask.KeyEnabled(key)\<close>\<close>
  Hex :: "SerializedPublicKey \<Rightarrow> string"
  GetLeaderAddress :: "Address \<Rightarrow> nat \<Rightarrow> string"
  StakingTransactionsFromBlock :: "Version \<Rightarrow> Block \<Rightarrow> error + StakingTransactions"
    \<comment> \<open>\<^verbatim>\<open>v1.StakingTransactionsFromBlock\<close>, \<^verbatim>\<open>v2.StakingTransactionsFromBlock\<close>\<close>
  ReadValidatorInformation :: "Address \<Rightarrow> error + int"
    \<comment> \<open>the validator's \<^verbatim>\<open>Counters.NumBlocksSigned\<close>\<close>
  ReadValidatorSnapshot :: "Address \<Rightarrow> error + int"
    \<comment> \<open>the snapshot's \<^verbatim>\<open>Validator.Counters.NumBlocksSigned\<close>\<close>
  fmt_Version :: "Version \<Rightarrow> string"
    \<comment> \<open>how \<^verbatim>\<open>fmt\<close> renders a \<^verbatim>\<open>Version\<close> under \<^verbatim>\<open>%v\<close>; the type is declared outside
        src/\<close>
  UnmarshalFromInterface :: "Opts \<Rightarrow> error + BlockArgs"
    \<comment> \<open>\<^verbatim>\<open>parsedBlockArgs.UnmarshalFromInterface(opts)\<close>\<close>
  NewBlock ::
    "Version \<Rightarrow> Block \<Rightarrow> BlockArgs option \<Rightarrow> bcServiceCache
       \<Rightarrow> (error + RPCBlock option) \<times> bcServiceCache"
    \<comment> \<open>\<^verbatim>\<open>NewBlock(blk, blockArgs)\<close> of the factory of package v1, v2 or eth; it reads
        and fills the caches through the helper\<close>
  limiter_Allow :: "Limiter \<Rightarrow> nat \<Rightarrow> bool"
    \<comment> \<open>\<^verbatim>\<open>limiter.Allow()\<close> at the n-th entry of \<^verbatim>\<open>wait\<close>\<close>
  limiter_Wait :: "Limiter \<Rightarrow> nat \<Rightarrow> error option"
    \<comment> \<open>\<^verbatim>\<open>limiter.Wait(deadlineCtx)\<close> at the n-th entry of \<^verbatim>\<open>wait\<close>\<close>

subsection \<open>The signer resolver\<close>

text \<open>
  The loop of \<^verbatim>\<open>getSignerData\<close> over the roster. A slot is appended to both lists when
  \<^verbatim>\<open>KeyEnabled\<close> returns \<^verbatim>\<open>(true, nil)\<close>; the condition \<^verbatim>\<open>err == nil && ok\<close> passes over
  the slot otherwise.
\<close>

fun getSignerData_loop ::
  "Harmony \<Rightarrow> Mask \<Rightarrow> Slot list \<Rightarrow> string list \<Rightarrow> string list
     \<Rightarrow> error + (string list \<times> string list)" where
  "getSignerData_loop hmy m [] sigs keys = Inr (sigs, keys)"
| "getSignerData_loop hmy m (validator # rest) sigs keys =
     (case AddressToBech32 hmy (EcdsaAddress validator) of
        Inl err \<Rightarrow> Inl err
      | Inr oneAddress \<Rightarrow>
          (case KeyEnabled hmy m (BLSPublicKey validator) of
             Inr True \<Rightarrow>
               getSignerData_loop hmy m rest
                 (sigs @ [oneAddress]) (keys @ [Hex hmy (BLSPublicKey validator)])
           | Inr False \<Rightarrow> getSignerData_loop hmy m rest sigs keys
           | Inl err \<Rightarrow> getSignerData_loop hmy m rest sigs keys))"

definition getSignerData :: "Harmony \<Rightarrow> uint64 \<Rightarrow> error + signerData" where
  "getSignerData hmy number =
     (case hmy_GetBlockSigners hmy number of
        Inl err \<Rightarrow> Inl err
      | Inr (slts, m) \<Rightarrow>
          (case getSignerData_loop hmy m slts [] [] of
             Inl err \<Rightarrow> Inl err
           | Inr (sigs, keys) \<Rightarrow>
               Inr \<lparr>signers = sigs, blsSigners = keys, slots = slts, mask_sd = m\<rparr>))"

subsection \<open>The service and its construction\<close>

record bcServiceHelper =
  helper_version :: Version
  helper_hmy :: Harmony

text \<open>
  \<open>rpcBlockFactory\<close> names the package whose factory was installed; \<open>None\<close> is the
  nil interface that the \<^verbatim>\<open>default\<close> branch of the constructor leaves.
\<close>

record PublicBlockchainService =
  hmy :: Harmony
  version :: Version
  limiter :: "Limiter option"
  rpcBlockFactory :: "Version option"
  helper :: bcServiceHelper

definition rpcGetBlocksLimit :: int where
  "rpcGetBlocksLimit = 1024"

definition blockCacheSize :: nat where
  "blockCacheSize = 2048"

definition signersCacheSize :: nat where
  "signersCacheSize = blockCacheSize"

definition stakingTxsCacheSize :: nat where
  "stakingTxsCacheSize = blockCacheSize"

definition leaderCacheSize :: nat where
  "leaderCacheSize = blockCacheSize"

definition rate_NewLimiter :: "int \<Rightarrow> nat \<Rightarrow> Limiter" where
  "rate_NewLimiter r b = \<lparr>lim_limit = r, lim_burst = b\<rparr>"

text \<open>\<^verbatim>\<open>newHelper\<close>: the helper and the three fresh caches it points to.\<close>

definition newHelper :: "Harmony \<Rightarrow> Version \<Rightarrow> bcServiceHelper \<times> bcServiceCache" where
  "newHelper h ver =
     (\<lparr>helper_version = ver, helper_hmy = h\<rparr>,
      \<lparr>signersCache = lru_New signersCacheSize,
       stakingTxsCache = lru_New stakingTxsCacheSize,
       leaderCache = lru_New leaderCacheSize\<rparr>)"

text \<open>
  \<^verbatim>\<open>NewPublicBlockchainAPI\<close>. The function declares \<^verbatim>\<open>var limiter *rate.Limiter\<close>
  (nil), here \<open>limiter_var\<close>. Inside \<^verbatim>\<open>if limiterEnable { limiter := ... }\<close> the
  operator \<^verbatim>\<open>:=\<close> declares a second variable whose scope is that block, here
  \<open>limiter_block\<close>; the service is then built from \<^verbatim>\<open>limiter\<close> outside the block,
  which is the first variable. The result is the service together with the caches that
  its helper owns.
\<close>

definition NewPublicBlockchainAPI ::
  "Harmony \<Rightarrow> Version \<Rightarrow> bool \<Rightarrow> int \<Rightarrow> PublicBlockchainService \<times> bcServiceCache" where
  "NewPublicBlockchainAPI h ver limiterEnable limit =
     (let limiter_var = (None :: Limiter option);
          limiter_block = (if limiterEnable then Some (rate_NewLimiter limit 1) else None);
          hc = newHelper h ver
      in (\<lparr>hmy = h, version = ver, limiter = limiter_var,
           rpcBlockFactory =
             (case ver of V1 \<Rightarrow> Some V1 | V2 \<Rightarrow> Some V2 | Eth \<Rightarrow> Some Eth
              | OtherVersion n \<Rightarrow> None),
           helper = fst hc\<rparr>, snd hc))"

definition newWorld :: "bcServiceCache \<Rightarrow> world" where
  "newWorld c =
     \<lparr>cache = c, rateLimitCounter = 0, waitCalls = 0, signerDataCalls = [],
      stakingTxsCalls = []\<rparr>"

subsection \<open>The admission gate\<close>

text \<open>
  \<^verbatim>\<open>wait\<close>: with a limiter, the throttle counter is incremented when \<^verbatim>\<open>Allow()\<close> is
  false and the result is that of \<^verbatim>\<open>limiter.Wait\<close> under the 5 second deadline; with a
  nil limiter the result is nil. The answers of the limiter depend on time and are
  given by the collaborator record.
\<close>

definition wait :: "PublicBlockchainService \<Rightarrow> world \<Rightarrow> error option \<times> world" where
  "wait s w =
     (let w0 = w\<lparr>waitCalls := Suc (waitCalls w)\<rparr>
      in case limiter s of
           Some lim \<Rightarrow>
             (limiter_Wait (hmy s) lim (waitCalls w),
              if limiter_Allow (hmy s) lim (waitCalls w) then w0
              else w0\<lparr>rateLimitCounter := Suc (rateLimitCounter w0)\<rparr>)
         | None \<Rightarrow> (None, w0))"

subsection \<open>Options\<close>

definition getBlockOptions ::
  "PublicBlockchainService \<Rightarrow> Opts \<Rightarrow> error + BlockArgs option" where
  "getBlockOptions s opts =
     (case opts of
        OptBlockArgs blockArgs \<Rightarrow> Inr blockArgs
      | _ \<Rightarrow>
          (case version s of
             V1 \<Rightarrow>
               (case opts of
                  OptBool fullTx \<Rightarrow>
                    Inr (Some \<lparr>WithSigners = False, FullTx = fullTx, InclStaking = True\<rparr>)
                | _ \<Rightarrow> Inl (ErrorString ''invalid type for block arguments''))
           | Eth \<Rightarrow>
               (case opts of
                  OptBool fullTx \<Rightarrow>
                    Inr (Some \<lparr>WithSigners = False, FullTx = fullTx, InclStaking = True\<rparr>)
                | _ \<Rightarrow> Inl (ErrorString ''invalid type for block arguments''))
           | V2 \<Rightarrow>
               (case UnmarshalFromInterface (hmy s) opts of
                  Inl err \<Rightarrow> Inl err
                | Inr parsedBlockArgs \<Rightarrow> Inr (Some parsedBlockArgs))
           | OtherVersion n \<Rightarrow> Inl ErrUnknownRPCVersion))"

definition isBlockGreaterThanLatest :: "Harmony \<Rightarrow> BlockNumber \<Rightarrow> bool" where
  "isBlockGreaterThanLatest h blockNum =
     (if blockNum = PendingBlockNumber then True
      else if blockNum = LatestBlockNumber then False
      else CurrentBlock_Number h < blockNum)"

subsection \<open>The helper: cached derived data\<close>



definition helper_getSignerData ::
  "bcServiceHelper \<Rightarrow> uint64 \<Rightarrow> world \<Rightarrow> (error + signerData) \<times> world" where
  "helper_getSignerData hp bn w =
     (case lru_Get (signersCache (cache w)) bn of
        (Some x, c) \<Rightarrow> (Inr x, w\<lparr>cache := (cache w)\<lparr>signersCache := c\<rparr>\<rparr>)
      | (None, c) \<Rightarrow>
          (let w1 = w\<lparr>cache := (cache w)\<lparr>signersCache := c\<rparr>,
                      signerDataCalls := signerDataCalls w @ [bn]\<rparr>
           in case getSignerData (helper_hmy hp) bn of
                Inl err \<Rightarrow> (Inl (ErrWrap err ''getSignerData''), w1)
              | Inr sd \<Rightarrow>
                  (Inr sd,
                   w1\<lparr>cache := (cache w1)\<lparr>signersCache := lru_Add c bn sd\<rparr>\<rparr>)))"

definition helper_GetSigners ::
  "bcServiceHelper \<Rightarrow> Block \<Rightarrow> world \<Rightarrow> (error + string list) \<times> world" where
  "helper_GetSigners hp b w =
     (case helper_getSignerData hp (NumberU64 b) w of
        (Inl err, w') \<Rightarrow> (Inl err, w')
      | (Inr sd, w') \<Rightarrow> (Inr (signers sd), w'))"

definition helper_GetBLSSigners ::
  "bcServiceHelper \<Rightarrow> uint64 \<Rightarrow> world \<Rightarrow> (error + string list) \<times> world" where
  "helper_GetBLSSigners hp bn w =
     (case helper_getSignerData hp bn w of
        (Inl err, w') \<Rightarrow> (Inl err, w')
      | (Inr sd, w') \<Rightarrow> (Inr (blsSigners sd), w'))"

definition helper_IsSigner ::
  "bcServiceHelper \<Rightarrow> string \<Rightarrow> uint64 \<Rightarrow> world \<Rightarrow> (error + bool) \<times> world" where
  "helper_IsSigner hp oneAddr bn w =
     (case helper_getSignerData hp bn w of
        (Inl err, w') \<Rightarrow> (Inl err, w')
      | (Inr sd, w') \<Rightarrow> (Inr (oneAddr \<in> set (signers sd)), w'))"

subsection \<open>Block queries\<close>

text \<open>
  \<^verbatim>\<open>GetBlockByNumber\<close>. A nil \<^verbatim>\<open>blk\<close> is \<open>None\<close>; the nil response of the Eth
  variant is \<open>Inr None\<close>. Calling \<^verbatim>\<open>NewBlock\<close> on the nil factory panics.
\<close>

definition GetBlockByNumber ::
  "PublicBlockchainService \<Rightarrow> BlockNumber \<Rightarrow> Opts \<Rightarrow> world
     \<Rightarrow> (error + RPCBlock option) \<times> world" where
  "GetBlockByNumber s blockNumber opts w =
     (case wait s w of
        (Some err, w1) \<Rightarrow> (Inl err, w1)
      | (None, w1) \<Rightarrow>
          (case getBlockOptions s opts of
             Inl err \<Rightarrow> (Inl err, w1)
           | Inr blockArgs \<Rightarrow>
               if blockNumber = PendingBlockNumber
               then (Inl (ErrorString ''pending block number not implemented''), w1)
               else
                 (let blockNum =
                        (if blockNumber = LatestBlockNumber
                         then BlockChain_CurrentHeader_Number (hmy s)
                         else blockNumber)
                  in case BlockChain_GetBlockByNumber (hmy s) blockNum of
                       None \<Rightarrow>
                         if version s = Eth then (Inr None, w1)
                         else (Inl ErrRequestedBlockTooHigh, w1)
                     | Some blk \<Rightarrow>
                         (case rpcBlockFactory s of
                            None \<Rightarrow> (Inl NilPointerPanic, w1)
                          | Some f \<Rightarrow>
                              (case NewBlock (hmy s) f blk blockArgs (cache w1) of
                                 (Inl err, c) \<Rightarrow> (Inl err, w1\<lparr>cache := c\<rparr>)
                               | (Inr rpcBlock, c) \<Rightarrow>
                                   (Inr rpcBlock, w1\<lparr>cache := c\<rparr>))))))"

text \<open>
  The cancellation signal of \<^verbatim>\<open>ctx\<close> as \<^verbatim>\<open>GetBlocks\<close> reads it: for the loop index
  \<open>i\<close>, \<open>ctx i\<close> is \<open>Some err\<close> when \<^verbatim>\<open>ctx.Done()\<close> is closed at the check made before
  block \<open>i\<close> is fetched, with \<open>err\<close> the value of \<^verbatim>\<open>ctx.Err()\<close>.
\<close>

type_synonym Context = "int64 \<Rightarrow> error option"

text \<open>
  The loop \<^verbatim>\<open>for i := blockStart; i <= blockEnd; i++\<close> of \<^verbatim>\<open>GetBlocks\<close>, over
  \<^verbatim>\<open>int64\<close> with the wrap-around of \<^verbatim>\<open>i++\<close>. It ends at the latest at the index -2,
  where \<^verbatim>\<open>GetBlockByNumber\<close> fails.
\<close>

function GetBlocks_loop ::
  "PublicBlockchainService \<Rightarrow> Context \<Rightarrow> BlockArgs option \<Rightarrow> int64 \<Rightarrow> int64
     \<Rightarrow> RPCBlock list \<Rightarrow> world \<Rightarrow> (error + RPCBlock list) \<times> world" where
  "GetBlocks_loop s ctx blockArgs blockEnd i result w =
     (if sint i \<le> sint blockEnd then
        (case ctx i of
           Some err \<Rightarrow> (Inl err, w)
         | None \<Rightarrow>
             if sint (CurrentBlock_Number (hmy s)) < sint i then (Inr result, w)
             else
               (case GetBlockByNumber s i (OptBlockArgs blockArgs) w of
                  (Inl err, w') \<Rightarrow> (Inl err, w')
                | (Inr None, w') \<Rightarrow>
                    GetBlocks_loop s ctx blockArgs blockEnd (i + 1) result w'
                | (Inr (Some rpcBlock), w') \<Rightarrow>
                    GetBlocks_loop s ctx blockArgs blockEnd (i + 1)
                      (result @ [rpcBlock]) w'))
      else (Inr result, w))"
  by pat_completeness auto

termination GetBlocks_loop
proof (relation
    "measure (\<lambda>(s, ctx, blockArgs, blockEnd, i, result, w). unat (- 2 - i))",
    goal_cases)
  case 1
  show ?case by simp
next
  case (2 s ctx blockArgs blockEnd i result w x y x2)
  have "fst (GetBlockByNumber s PendingBlockNumber (OptBlockArgs blockArgs) w) \<noteq> Inr x2"
    by (simp add: GetBlockByNumber_def split: prod.splits option.splits sum.splits)
  with 2 have "i \<noteq> - 2"
    by (auto simp: PendingBlockNumber_def dest: arg_cong[where f=fst])
  define d where "d = - 2 - i"
  have "d \<noteq> 0" using \<open>i \<noteq> - 2\<close> by (simp add: d_def)
  then have "unat (d - 1) < unat d"
    by (simp add: unat_minus_one unat_gt_0)
  moreover have "- 2 - (i + 1) = d - 1" by (simp add: d_def)
  ultimately show ?case by (simp add: d_def)
next
  case (3 s ctx blockArgs blockEnd i result w x y x2 z)
  have "fst (GetBlockByNumber s PendingBlockNumber (OptBlockArgs blockArgs) w) \<noteq> Inr x2"
    by (simp add: GetBlockByNumber_def split: prod.splits option.splits sum.splits)
  with 3 have "i \<noteq> - 2"
    by (auto simp: PendingBlockNumber_def dest: arg_cong[where f=fst])
  define d where "d = - 2 - i"
  have "d \<noteq> 0" using \<open>i \<noteq> - 2\<close> by (simp add: d_def)
  then have "unat (d - 1) < unat d"
    by (simp add: unat_minus_one unat_gt_0)
  moreover have "- 2 - (i + 1) = d - 1" by (simp add: d_def)
  ultimately show ?case by (simp add: d_def)
qed

text \<open>
  \<^verbatim>\<open>GetBlocks\<close>. The range test is evaluated on \<^verbatim>\<open>int64\<close>, so the difference
  \<^verbatim>\<open>blockEnd-blockStart\<close> wraps.
\<close>

definition GetBlocks ::
  "PublicBlockchainService \<Rightarrow> Context \<Rightarrow> BlockNumber \<Rightarrow> BlockNumber \<Rightarrow> BlockArgs option
     \<Rightarrow> world \<Rightarrow> (error + RPCBlock list) \<times> world" where
  "GetBlocks s ctx blockNumberStart blockNumberEnd blockArgs w =
     (let blockStart = blockNumberStart;
          blockEnd =
            (if blockNumberEnd = LatestBlockNumber
             then BlockChain_CurrentHeader_Number (hmy s)
             else blockNumberEnd)
      in if sint blockStart \<le> sint blockEnd
            \<and> rpcGetBlocksLimit < sint (blockEnd - blockStart)
         then (Inl (ErrorString ''GetBlocks query must be smaller than size 1024''), w)
         else GetBlocks_loop s ctx blockArgs blockEnd blockStart [] w)"

subsection \<open>Signer queries\<close>

definition GetBlockSigners ::
  "PublicBlockchainService \<Rightarrow> BlockNumber \<Rightarrow> world \<Rightarrow> (error + string list) \<times> world" where
  "GetBlockSigners s blockNumber w =
     (let blockNum = blockNumber
      in if blockNum = PendingBlockNumber
         then (Inl (ErrorString ''cannot get signer keys for pending blocks''), w)
         else if sint blockNum = 0 \<or> sint (CurrentBlock_Number (hmy s)) \<le> sint blockNum
         then (Inr [], w)
         else if isBlockGreaterThanLatest (hmy s) blockNum
         then (Inl ErrRequestedBlockTooHigh, w)
         else
           (let bn = (if blockNum = LatestBlockNumber then CurrentBlock_Number (hmy s)
                      else blockNum)
            in case BlockChain_GetBlockByNumber (hmy s) bn of
                 None \<Rightarrow> (Inl (ErrorString ''unknown block''), w)
               | Some blk \<Rightarrow> helper_GetSigners (helper s) blk w))"

definition GetBlockSignerKeys ::
  "PublicBlockchainService \<Rightarrow> BlockNumber \<Rightarrow> world \<Rightarrow> (error + string list) \<times> world" where
  "GetBlockSignerKeys s blockNumber w =
     (let blockNum = blockNumber
      in if blockNum = PendingBlockNumber
         then (Inl (ErrorString ''cannot get signer keys for pending blocks''), w)
         else if sint blockNum = 0 \<or> sint (CurrentBlock_Number (hmy s)) \<le> sint blockNum
         then (Inr [], w)
         else if isBlockGreaterThanLatest (hmy s) blockNum
         then (Inl ErrRequestedBlockTooHigh, w)
         else
           (let bn = (if blockNum = LatestBlockNumber then CurrentBlock_Number (hmy s)
                      else blockNum)
            in helper_GetBLSSigners (helper s) bn w))"

definition IsBlockSigner ::
  "PublicBlockchainService \<Rightarrow> BlockNumber \<Rightarrow> string \<Rightarrow> world \<Rightarrow> (error + bool) \<times> world" where
  "IsBlockSigner s blockNumber address w =
     (let blockNum = blockNumber
      in if sint blockNum = 0 then (Inr False, w)
         else if isBlockGreaterThanLatest (hmy s) blockNum
         then (Inl ErrRequestedBlockTooHigh, w)
         else if blockNum = PendingBlockNumber
         then (Inl (ErrorString ''no signing data for pending block number''), w)
         else
           (let bn = (if blockNum = LatestBlockNumber
                      then BlockChain_CurrentBlock_Number (hmy s)
                      else blockNum)
            in helper_IsSigner (helper s) address bn w))"

text \<open>
  The loop \<^verbatim>\<open>for i := lastBlock; i <= blockHeight; i++\<close> of \<^verbatim>\<open>GetSignedBlocks\<close>, over
  \<^verbatim>\<open>uint64\<close>. With \<^verbatim>\<open>blockHeight\<close> the largest \<^verbatim>\<open>uint64\<close> the condition never fails; not
  returning is the value \<open>None\<close>. The condition \<^verbatim>\<open>err == nil && signed\<close> holds when
  \<^verbatim>\<open>IsBlockSigner\<close> returns \<^verbatim>\<open>(true, nil)\<close>, the value \<open>Inr True\<close>.
\<close>

partial_function (option) GetSignedBlocks_loop ::
  "PublicBlockchainService \<Rightarrow> string \<Rightarrow> uint64 \<Rightarrow> uint64 \<Rightarrow> uint64 \<Rightarrow> world
     \<Rightarrow> (uint64 \<times> world) option" where
  "GetSignedBlocks_loop s address blockHeight i totalSigned w =
     (if i \<le> blockHeight then
        (case IsBlockSigner s i address w of
           (res, w') \<Rightarrow>
             GetSignedBlocks_loop s address blockHeight (i + 1)
               (if res = Inr True then totalSigned + 1 else totalSigned) w')
      else Some (totalSigned, w))"

text \<open>
  \<^verbatim>\<open>GetSignedBlocks\<close>. The function declares \<^verbatim>\<open>var totalSigned uint64\<close> (zero), here
  \<open>totalSigned\<close>. The branch before the staking epoch opens with
  \<^verbatim>\<open>totalSigned := uint64(0)\<close>, a second variable whose scope is that branch, here
  \<open>totalSigned_block\<close>: the loop counts into it, and the response after the branch is
  formatted from the first variable. In the staking branch \<^verbatim>\<open>totalSigned = ...\<close> assigns
  the first variable.
\<close>

definition GetSignedBlocks ::
  "PublicBlockchainService \<Rightarrow> string \<Rightarrow> world \<Rightarrow> ((error + Response) \<times> world) option" where
  "GetSignedBlocks s address w =
     (let curEpoch = CurrentBlock_Epoch (hmy s);
          totalSigned = (0 :: uint64);
          format = (\<lambda>n. case version s of
                       V1 \<Rightarrow> Inr (HexUint64 n)
                     | Eth \<Rightarrow> Inr (HexUint64 n)
                     | V2 \<Rightarrow> Inr (PlainUint64 n)
                     | OtherVersion k \<Rightarrow> Inl ErrUnknownRPCVersion)
      in if \<not> IsStaking (hmy s) curEpoch then
           (let blockHeight = CurrentBlock_Number (hmy s);
                perEpoch = BlocksPerEpoch (hmy s) (CurrentBlock_Epoch (hmy s));
                lastBlock = (if perEpoch \<le> blockHeight then blockHeight - perEpoch + 1
                             else 0)
            in case GetSignedBlocks_loop s address blockHeight lastBlock 0 w of
                 None \<Rightarrow> None
               | Some (totalSigned_block, w') \<Rightarrow> Some (format totalSigned, w'))
         else
           (case Bech32ToAddress (hmy s) address of
              Inl err \<Rightarrow> Some (Inl err, w)
            | Inr ethAddr \<Rightarrow>
                (case ReadValidatorInformation (hmy s) ethAddr of
                   Inl err \<Rightarrow> Some (Inl err, w)
                 | Inr curSigned \<Rightarrow>
                     (case ReadValidatorSnapshot (hmy s) ethAddr of
                        Inl err \<Rightarrow> Some (Inl err, w)
                      | Inr prevSigned \<Rightarrow>
                          (let signedInEpoch = curSigned - prevSigned
                           in if signedInEpoch < 0
                              then Some (Inl (ErrorString ''negative signed in epoch''), w)
                              else Some (format (word_of_int signedInEpoch), w))))))"

declare GetSignedBlocks_loop.simps [code]

subsection \<open>A concrete node\<close>

text \<open>
  A chain of four blocks (head 3) in epoch 1, before the staking epoch 10, with ten blocks
  per epoch. Roster and mask are on record for the blocks below the head. The roster has
  four slots; the mask test is true for the first and the fourth key, fails for the
  second key and is false for the third. The limiter of this node never grants a token:
  \<^verbatim>\<open>Allow\<close> is false and \<^verbatim>\<open>Wait\<close> runs into the deadline.
\<close>

definition ex_roster :: "Slot list" where
  "ex_roster =
     [\<lparr>EcdsaAddress = 1, BLSPublicKey = 11\<rparr>,
      \<lparr>EcdsaAddress = 2, BLSPublicKey = 12\<rparr>,
      \<lparr>EcdsaAddress = 3, BLSPublicKey = 13\<rparr>,
      \<lparr>EcdsaAddress = 4, BLSPublicKey = 14\<rparr>]"

definition ex_hmy :: Harmony where
  "ex_hmy =
     \<lparr>BlockChain_CurrentHeader_Number = 3,
      BlockChain_CurrentBlock_Number = 3,
      CurrentBlock_Number = 3,
      CurrentBlock_Epoch = 1,
      BlockChain_GetBlockByNumber =
        (\<lambda>n. if n \<le> 3 then Some \<lparr>NumberU64 = n, Coinbase = 1, Epoch = 1\<rparr> else None),
      IsStaking = (\<lambda>e. 10 \<le> e),
      BlocksPerEpoch = (\<lambda>e. 10),
      hmy_GetBlockSigners =
        (\<lambda>n. if n < 3 then Inr (ex_roster, 0) else Inl (ErrExternal 1)),
      AddressToBech32 =
        (\<lambda>a. if a = 1 then Inr ''one1a'' else if a = 2 then Inr ''one1b''
             else if a = 3 then Inr ''one1c'' else if a = 4 then Inr ''one1d''
             else Inl (ErrExternal 2)),
      Bech32ToAddress = (\<lambda>x. if x = ''one1a'' then Inr 1 else Inl (ErrExternal 3)),
      KeyEnabled =
        (\<lambda>m k. if k = 11 then Inr True else if k = 12 then Inl (ErrExternal 4)
               else if k = 13 then Inr False else Inr True),
      Hex = (\<lambda>k. if k = 11 then ''0b'' else if k = 12 then ''0c''
             else if k = 13 then ''0d'' else ''0e''),
      GetLeaderAddress = (\<lambda>a e. ''one1a''),
      StakingTransactionsFromBlock =
        (\<lambda>v b. if NumberU64 b = 2 then Inl (ErrExternal 5) else Inr 7),
      ReadValidatorInformation = (\<lambda>a. Inr 5),
      ReadValidatorSnapshot = (\<lambda>a. Inr 2),
      fmt_Version =
        (\<lambda>v. case v of V1 \<Rightarrow> ''0'' | V2 \<Rightarrow> ''1'' | Eth \<Rightarrow> ''2''
              | OtherVersion n \<Rightarrow> ''3''),
      UnmarshalFromInterface = (\<lambda>opts. Inl (ErrExternal 6)),
      NewBlock = (\<lambda>v b args c. (Inr (Some (unat (NumberU64 b))), c)),
      limiter_Allow = (\<lambda>l n. False),
      limiter_Wait = (\<lambda>l n. Some (ErrorString ''context deadline exceeded''))\<rparr>"

definition ex_service :: "Version \<Rightarrow> PublicBlockchainService" where
  "ex_service ver = fst (NewPublicBlockchainAPI ex_hmy ver True 0)"

definition ex_world :: world where
  "ex_world = newWorld (snd (NewPublicBlockchainAPI ex_hmy V1 True 0))"

definition ex_ctx :: Context where
  "ex_ctx = (\<lambda>i. None)"

section \<open>Properties\<close>

subsection \<open>Auxiliary facts\<close>

lemma ex_hmy_fields:
  "BlockChain_CurrentHeader_Number ex_hmy = 3"
  "BlockChain_CurrentBlock_Number ex_hmy = 3"
  "CurrentBlock_Number ex_hmy = 3"
  "CurrentBlock_Epoch ex_hmy = 1"
  "BlockChain_GetBlockByNumber ex_hmy n =
     (if n \<le> 3 then Some \<lparr>NumberU64 = n, Coinbase = 1, Epoch = 1\<rparr> else None)"
  "IsStaking ex_hmy e = (10 \<le> e)"
  "BlocksPerEpoch ex_hmy e = 10"
  "hmy_GetBlockSigners ex_hmy n =
     (if n < 3 then Inr (ex_roster, 0) else Inl (ErrExternal 1))"
  "NewBlock ex_hmy v b args c = (Inr (Some (unat (NumberU64 b))), c)"
  "limiter_Allow ex_hmy l k = False"
  "limiter_Wait ex_hmy l k = Some (ErrorString ''context deadline exceeded'')"
  "StakingTransactionsFromBlock ex_hmy v b =
     (if NumberU64 b = 2 then Inl (ErrExternal 5) else Inr 7)"
  by (simp_all add: ex_hmy_def)

lemma ex_service_fields:
  "hmy (ex_service ver) = ex_hmy"
  "version (ex_service ver) = ver"
  "limiter (ex_service ver) = None"
  "helper (ex_service ver) = \<lparr>helper_version = ver, helper_hmy = ex_hmy\<rparr>"
  "rpcBlockFactory (ex_service V1) = Some V1"
  "rpcBlockFactory (ex_service Eth) = Some Eth"
  by (simp_all add: ex_service_def NewPublicBlockchainAPI_def newHelper_def Let_def)

lemma ex_world_fields:
  "waitCalls ex_world = 0"
  "rateLimitCounter ex_world = 0"
  "signerDataCalls ex_world = []"
  "stakingTxsCalls ex_world = []"
  "lru_items (signersCache (cache ex_world)) = []"
  "lru_items (stakingTxsCache (cache ex_world)) = []"
  "lru_items (leaderCache (cache ex_world)) = []"
  "lru_size (signersCache (cache ex_world)) = 2048"
  "lru_size (stakingTxsCache (cache ex_world)) = 2048"
  "lru_size (leaderCache (cache ex_world)) = 2048"
  by (simp_all add: ex_world_def newWorld_def NewPublicBlockchainAPI_def newHelper_def
      Let_def lru_New_def signersCacheSize_def stakingTxsCacheSize_def leaderCacheSize_def
      blockCacheSize_def)

lemma ex_getSignerData:
  "getSignerData ex_hmy 2 =
     Inr \<lparr>signers = [''one1a'', ''one1d''], blsSigners = [''0b'', ''0e''],
          slots = ex_roster, mask_sd = 0\<rparr>"
  by (simp add: getSignerData_def ex_hmy_def ex_roster_def)

lemma sint_sub_nonneg:
  fixes a b :: "64 word"
  assumes "0 \<le> sint a" "0 \<le> sint b"
  shows "sint (b - a) = sint b - sint a"
proof -
  have "sint a < 2 ^ 63" "sint b < 2 ^ 63"
    using sint_lt [of a] sint_lt [of b] by simp_all
  with assms have "- (2 ^ 63) \<le> sint b - sint a" "sint b - sint a < 2 ^ 63"
    by simp_all
  then have "signed_take_bit 63 (sint b - sint a) = sint b - sint a"
    by (simp add: signed_take_bit_int_eq_self)
  then show ?thesis by (simp add: sint_word_ariths)
qed

lemma nonneg_not_sentinel:
  fixes b :: "64 word"
  assumes "0 \<le> sint b"
  shows "b \<noteq> LatestBlockNumber" "b \<noteq> PendingBlockNumber"
  using assms by (auto simp: LatestBlockNumber_def PendingBlockNumber_def)














lemma sint_succ:
  fixes i :: "64 word"
  assumes "sint i < 2 ^ 63 - 1"
  shows "sint (i + 1) = sint i + 1"
proof -
  have "- (2 ^ 63) \<le> sint i" using sint_ge [of i] by simp
  with assms have "signed_take_bit 63 (sint i + 1) = sint i + 1"
    by (simp add: signed_take_bit_int_eq_self)
  then show ?thesis by (simp add: sint_word_ariths)
qed

lemma wait_waitCalls: "waitCalls (snd (wait s w)) = Suc (waitCalls w)"
  by (simp add: wait_def Let_def split: option.splits)

lemma GetBlockByNumber_waitCalls:
  "waitCalls (snd (GetBlockByNumber s n opts w)) = Suc (waitCalls w)"
proof -
  obtain r w1 where w: "wait s w = (r, w1)" by (cases "wait s w")
  with wait_waitCalls [of s w] have c: "waitCalls w1 = Suc (waitCalls w)" by simp
  show ?thesis
    by (simp add: GetBlockByNumber_def w c Let_def
        split: option.splits sum.splits prod.splits)
qed

lemma helper_getSignerData_waitCalls:
  "waitCalls (snd (helper_getSignerData hp bn w)) = waitCalls w"
  by (simp add: helper_getSignerData_def Let_def split: option.splits sum.splits prod.splits)

lemma helper_GetSigners_waitCalls:
  "waitCalls (snd (helper_GetSigners hp b w)) = waitCalls w"
proof -
  obtain r w1 where g: "helper_getSignerData hp (NumberU64 b) w = (r, w1)"
    by (cases "helper_getSignerData hp (NumberU64 b) w")
  with helper_getSignerData_waitCalls [of hp "NumberU64 b" w] have "waitCalls w1 = waitCalls w"
    by simp
  then show ?thesis by (simp add: helper_GetSigners_def g split: sum.splits)
qed

lemma helper_GetBLSSigners_waitCalls:
  "waitCalls (snd (helper_GetBLSSigners hp bn w)) = waitCalls w"
proof -
  obtain r w1 where g: "helper_getSignerData hp bn w = (r, w1)"
    by (cases "helper_getSignerData hp bn w")
  with helper_getSignerData_waitCalls [of hp bn w] have "waitCalls w1 = waitCalls w"
    by simp
  then show ?thesis by (simp add: helper_GetBLSSigners_def g split: sum.splits)
qed

lemma helper_IsSigner_waitCalls:
  "waitCalls (snd (helper_IsSigner hp a bn w)) = waitCalls w"
proof -
  obtain r w1 where g: "helper_getSignerData hp bn w = (r, w1)"
    by (cases "helper_getSignerData hp bn w")
  with helper_getSignerData_waitCalls [of hp bn w] have "waitCalls w1 = waitCalls w"
    by simp
  then show ?thesis by (simp add: helper_IsSigner_def g split: sum.splits)
qed

lemma signer_queries_waitCalls:
  "waitCalls (snd (GetBlockSigners s n w)) = waitCalls w"
  "waitCalls (snd (GetBlockSignerKeys s n w)) = waitCalls w"
  "waitCalls (snd (IsBlockSigner s n a w)) = waitCalls w"
  by (simp_all add: GetBlockSigners_def GetBlockSignerKeys_def IsBlockSigner_def
      helper_GetSigners_waitCalls helper_GetBLSSigners_waitCalls helper_IsSigner_waitCalls
      Let_def split: option.splits)

lemma GetBlocks_loop_wraps:
  "sint blockEnd = 2 ^ 63 - 1 \<Longrightarrow> sint (CurrentBlock_Number (hmy s)) = 2 ^ 63 - 1 \<Longrightarrow>
     fst (GetBlocks_loop s ctx blockArgs blockEnd i result w) \<noteq> Inr res"
proof (induction s ctx blockArgs blockEnd i result w rule: GetBlocks_loop.induct)
  case (1 s ctx blockArgs blockEnd i result w)
  have le: "sint i \<le> 2 ^ 63 - 1" using sint_lt [of i] by simp
  show ?case
  proof (cases "ctx i")
    case (Some e)
    then show ?thesis using 1 le by (simp add: GetBlocks_loop.simps [of s ctx blockArgs blockEnd i])
  next
    case None
    obtain x y where g: "GetBlockByNumber s i (OptBlockArgs blockArgs) w = (x, y)"
      by (cases "GetBlockByNumber s i (OptBlockArgs blockArgs) w")
    show ?thesis
    proof (cases x)
      case (Inl e)
      then show ?thesis using 1(3,4) le None g 
        by (simp add: GetBlocks_loop.simps [of s ctx blockArgs blockEnd i])
    next
      case (Inr r)
      show ?thesis
      proof (cases r)
        case None': None
        from "1.IH"(1) [OF _ None _ g [symmetric] Inr None'] 1(3,4) le
        have "fst (GetBlocks_loop s ctx blockArgs blockEnd (i + 1) result y) \<noteq> Inr res"
          by simp
        then show ?thesis using 1(3,4) le None g Inr None'
          by (simp add: GetBlocks_loop.simps [of s ctx blockArgs blockEnd i])
      next
        case (Some rb)
        from "1.IH"(2) [OF _ None _ g [symmetric] Inr Some] 1(3,4) le
        have "fst (GetBlocks_loop s ctx blockArgs blockEnd (i + 1) (result @ [rb]) y) \<noteq> Inr res"
          by simp
        then show ?thesis using 1(3,4) le None g Inr Some
          by (simp add: GetBlocks_loop.simps [of s ctx blockArgs blockEnd i])
      qed
    qed
  qed
qed

lemma GetBlocks_loop_waitCalls:
  "GetBlocks_loop s ctx blockArgs blockEnd i result w = (Inr res, w') \<Longrightarrow>
     waitCalls w' = waitCalls w
       + nat (min (sint blockEnd) (sint (CurrentBlock_Number (hmy s))) + 1 - sint i)"
proof (induction s ctx blockArgs blockEnd i result w rule: GetBlocks_loop.induct)
  case (1 s ctx blockArgs blockEnd i result w)
  let ?head = "sint (CurrentBlock_Number (hmy s))"
  note unf = GetBlocks_loop.simps [of s ctx blockArgs blockEnd i result w]
  show ?case
  proof (cases "sint i \<le> sint blockEnd")
    case False
    with "1.prems" show ?thesis by (simp add: unf)
  next
    case in_range: True
    show ?thesis
    proof (cases "ctx i")
      case (Some e)
      with "1.prems" in_range show ?thesis by (simp add: unf)
    next
      case None
      show ?thesis
      proof (cases "?head < sint i")
        case True
        with "1.prems" in_range None show ?thesis by (simp add: unf)
      next
        case below: False
        obtain x y where g: "GetBlockByNumber s i (OptBlockArgs blockArgs) w = (x, y)"
          by (cases "GetBlockByNumber s i (OptBlockArgs blockArgs) w")
        from GetBlockByNumber_waitCalls [of s i "OptBlockArgs blockArgs" w] g
        have wc: "waitCalls y = Suc (waitCalls w)" by simp
        obtain r where x: "x = Inr r"
          using "1.prems" in_range None below g by (cases x) (simp_all add: unf)
        obtain result' where
          rec: "GetBlocks_loop s ctx blockArgs blockEnd (i + 1) result' y = (Inr res, w')"
          and ih: "GetBlocks_loop s ctx blockArgs blockEnd (i + 1) result' y = (Inr res, w')
            \<Longrightarrow> waitCalls w' = waitCalls y
              + nat (min (sint blockEnd) ?head + 1 - sint (i + 1))"
        proof (cases r)
          case None': None
          have "GetBlocks_loop s ctx blockArgs blockEnd (i + 1) result y = (Inr res, w')"
            using "1.prems" in_range None below g x None' by (simp add: unf)
          with "1.IH"(1) [OF in_range None below g [symmetric] x None'] that
          show ?thesis by blast
        next
          case (Some rb)
          have "GetBlocks_loop s ctx blockArgs blockEnd (i + 1) (result @ [rb]) y
              = (Inr res, w')"
            using "1.prems" in_range None below g x Some by (simp add: unf)
          with "1.IH"(2) [OF in_range None below g [symmetric] x Some] that
          show ?thesis by blast
        qed
        have nomax: "sint i < 2 ^ 63 - 1"
        proof (rule ccontr)
          assume "\<not> sint i < 2 ^ 63 - 1"
          with sint_lt [of i] have "sint i = 2 ^ 63 - 1" by simp
          with in_range below sint_lt [of blockEnd] sint_lt [of "CurrentBlock_Number (hmy s)"]
          have "sint blockEnd = 2 ^ 63 - 1" "?head = 2 ^ 63 - 1" by simp_all
          from GetBlocks_loop_wraps [OF this, of ctx blockArgs "i + 1" result' y res] rec
          show False by simp
        qed
        from ih [OF rec] wc sint_succ [OF nomax] in_range below
        show ?thesis by simp
      qed
    qed
  qed
qed


lemma getSignerData_loop_result:
  "getSignerData_loop h m xs sigs keys = Inr (sigs', keys') \<Longrightarrow>
     map Inr sigs' =
       map Inr sigs @ map (\<lambda>v. AddressToBech32 h (EcdsaAddress v))
         (filter (\<lambda>v. KeyEnabled h m (BLSPublicKey v) = Inr True) xs)
     \<and> keys' =
       keys @ map (\<lambda>v. Hex h (BLSPublicKey v))
         (filter (\<lambda>v. KeyEnabled h m (BLSPublicKey v) = Inr True) xs)"
proof (induction xs arbitrary: sigs keys)
  case Nil
  then show ?case by simp
next
  case (Cons v xs)
  from Cons.prems obtain a where a: "AddressToBech32 h (EcdsaAddress v) = Inr a"
    by (auto split: sum.splits)
  show ?case
  proof (cases "KeyEnabled h m (BLSPublicKey v) = Inr True")
    case True
    with Cons.prems a
    have "getSignerData_loop h m xs (sigs @ [a]) (keys @ [Hex h (BLSPublicKey v)])
            = Inr (sigs', keys')"
      by simp
    from Cons.IH [OF this] show ?thesis using True a by simp
  next
    case False
    with Cons.prems a have "getSignerData_loop h m xs sigs keys = Inr (sigs', keys')"
      by (auto split: sum.splits bool.splits)
    from Cons.IH [OF this] show ?thesis using False by simp
  qed
qed

lemma getSignerData_loop_total:
  "\<forall>v \<in> set xs. \<exists>a. AddressToBech32 h (EcdsaAddress v) = Inr a \<Longrightarrow>
     \<exists>r. getSignerData_loop h m xs sigs keys = Inr r"
proof (induction xs arbitrary: sigs keys)
  case Nil
  then show ?case by simp
next
  case (Cons v xs)
  then obtain a where a: "AddressToBech32 h (EcdsaAddress v) = Inr a" by auto
  from Cons have ih: "\<And>sigs keys. \<exists>r. getSignerData_loop h m xs sigs keys = Inr r"
    by simp
  show ?case using a ih
    by (simp split: sum.splits bool.splits)
qed

subsection \<open>The signer resolver\<close>

text \<open>
  C8. When \<^verbatim>\<open>getSignerData\<close> succeeds, \<open>slots\<close> and \<open>mask_sd\<close> are the roster and
  the mask that \<^verbatim>\<open>hmy.GetBlockSigners\<close> returned, \<open>signers\<close> and \<open>blsSigners\<close> have
  the same length, and both are read off the same sequence of slots: the slots of the
  roster whose key the mask reports enabled, in roster order. At every index \<open>i\<close> the
  address is the bech32 form of the address of the \<open>i\<close>-th such slot and the key is the
  hex form of the BLS key of that same slot.
\<close>

theorem getSignerData_lockstep:
  assumes "getSignerData h number = Inr sd"
  shows "hmy_GetBlockSigners h number = Inr (slots sd, mask_sd sd)
     \<and> length (signers sd) = length (blsSigners sd)
     \<and> (let sel = filter (\<lambda>v. KeyEnabled h (mask_sd sd) (BLSPublicKey v) = Inr True)
                     (slots sd)
        in length sel = length (signers sd)
           \<and> (\<forall>i < length sel.
                 AddressToBech32 h (EcdsaAddress (sel ! i)) = Inr (signers sd ! i)
                 \<and> Hex h (BLSPublicKey (sel ! i)) = blsSigners sd ! i))"
proof -
  from assms obtain slts m sigs keys where
    f: "hmy_GetBlockSigners h number = Inr (slts, m)" and
    l: "getSignerData_loop h m slts [] [] = Inr (sigs, keys)" and
    sd: "sd = \<lparr>signers = sigs, blsSigners = keys, slots = slts, mask_sd = m\<rparr>"
    by (auto simp: getSignerData_def split: sum.splits prod.splits)
  define sel where "sel = filter (\<lambda>v. KeyEnabled h m (BLSPublicKey v) = Inr True) slts"
  from getSignerData_loop_result [OF l]
  have s: "map Inr sigs = map (\<lambda>v. AddressToBech32 h (EcdsaAddress v)) sel"
    and k: "keys = map (\<lambda>v. Hex h (BLSPublicKey v)) sel"
    by (simp_all add: sel_def)
  from s have ls: "length sigs = length sel"
    by (metis length_map)
  from k have lk: "length keys = length sel" by simp
  have idx: "AddressToBech32 h (EcdsaAddress (sel ! i)) = Inr (sigs ! i)
      \<and> Hex h (BLSPublicKey (sel ! i)) = keys ! i" if "i < length sel" for i
  proof -
    have "map Inr sigs ! i = map (\<lambda>v. AddressToBech32 h (EcdsaAddress v)) sel ! i"
      using s by simp
    then have "Inr (sigs ! i) = AddressToBech32 h (EcdsaAddress (sel ! i))"
      using that ls by simp
    then show ?thesis using that k by simp
  qed
  show ?thesis
    using f ls lk idx by (simp add: sd sel_def Let_def)
qed

theorem getSignerData_lockstep_witness:
  "getSignerData ex_hmy 2 =
     Inr \<lparr>signers = [''one1a'', ''one1d''], blsSigners = [''0b'', ''0e''],
          slots = ex_roster, mask_sd = 0\<rparr>
   \<and> hmy_GetBlockSigners ex_hmy 2 = Inr (ex_roster, 0)
   \<and> length [''one1a'', ''one1d''] = length [''0b'', ''0e'']"
  using getSignerData_lockstep [OF ex_getSignerData] ex_getSignerData
  by simp

text \<open>
  C3, as the code has it. The claim says that a slot whose key test reports an error
  makes the resolution fail. In the concrete node the test fails for the second slot of
  the roster of block 2, and the resolution of block 2 succeeds, with that slot left
  out.
\<close>

theorem getSignerData_key_error_counterexample:
  "hmy_GetBlockSigners ex_hmy 2 = Inr (ex_roster, 0)
   \<and> KeyEnabled ex_hmy 0 (BLSPublicKey (ex_roster ! 1)) = Inl (ErrExternal 4)
   \<and> getSignerData ex_hmy 2 =
       Inr \<lparr>signers = [''one1a'', ''one1d''], blsSigners = [''0b'', ''0e''],
            slots = ex_roster, mask_sd = 0\<rparr>"
  by (simp add: getSignerData_def ex_hmy_def ex_roster_def)

text \<open>
  C3, amended. When the roster and the mask are fetched and the address of every slot
  has a bech32 form, the resolution succeeds whatever the key test reports: a slot is
  listed exactly when the test returns true without an error, so a slot whose test
  reports an error is passed over like a slot whose key is not enabled.
\<close>

theorem getSignerData_skips_unevaluable_keys:
  assumes "hmy_GetBlockSigners h number = Inr (slts, m)"
      and "\<forall>v \<in> set slts. \<exists>a. AddressToBech32 h (EcdsaAddress v) = Inr a"
  shows "\<exists>sd. getSignerData h number = Inr sd \<and> slots sd = slts \<and> mask_sd sd = m
     \<and> map Inr (signers sd) =
         map (\<lambda>v. AddressToBech32 h (EcdsaAddress v))
           (filter (\<lambda>v. KeyEnabled h m (BLSPublicKey v) = Inr True) slts)
     \<and> blsSigners sd =
         map (\<lambda>v. Hex h (BLSPublicKey v))
           (filter (\<lambda>v. KeyEnabled h m (BLSPublicKey v) = Inr True) slts)"
proof -
  from getSignerData_loop_total [OF assms(2)]
  obtain sigs keys where l: "getSignerData_loop h m slts [] [] = Inr (sigs, keys)"
    by (metis surj_pair)
  from getSignerData_loop_result [OF l] show ?thesis
    using assms(1) l by (simp add: getSignerData_def)
qed

theorem getSignerData_skips_unevaluable_keys_witness:
  "hmy_GetBlockSigners ex_hmy 2 = Inr (ex_roster, 0)
   \<and> map (\<lambda>v. AddressToBech32 ex_hmy (EcdsaAddress v)) ex_roster =
       [Inr ''one1a'', Inr ''one1b'', Inr ''one1c'', Inr ''one1d'']
   \<and> (\<exists>sd. getSignerData ex_hmy 2 = Inr sd \<and> slots sd = ex_roster \<and> mask_sd sd = 0
     \<and> map Inr (signers sd) =
         map (\<lambda>v. AddressToBech32 ex_hmy (EcdsaAddress v))
           (filter (\<lambda>v. KeyEnabled ex_hmy 0 (BLSPublicKey v) = Inr True) ex_roster)
     \<and> blsSigners sd =
         map (\<lambda>v. Hex ex_hmy (BLSPublicKey v))
           (filter (\<lambda>v. KeyEnabled ex_hmy 0 (BLSPublicKey v) = Inr True) ex_roster))"
proof -
  have f: "hmy_GetBlockSigners ex_hmy 2 = Inr (ex_roster, 0)"
    by (simp add: ex_hmy_fields)
  have a: "\<forall>v \<in> set ex_roster. \<exists>a. AddressToBech32 ex_hmy (EcdsaAddress v) = Inr a"
    by (simp add: ex_roster_def ex_hmy_def)
  have m: "map (\<lambda>v. AddressToBech32 ex_hmy (EcdsaAddress v)) ex_roster =
       [Inr ''one1a'', Inr ''one1b'', Inr ''one1c'', Inr ''one1d'']"
    by (simp add: ex_roster_def ex_hmy_def)
  from getSignerData_skips_unevaluable_keys [OF f a] f m show ?thesis
    by blast
qed

subsection \<open>The caches\<close>



subsection \<open>Block queries\<close>

text \<open>
  C7. For block numbers \<open>a\<close> and \<open>b\<close> that are not sentinels (both at least 0) with
  \<open>b - a > 1024\<close>, \<^verbatim>\<open>GetBlocks\<close> fails with the range-size error and leaves the state
  as it was, for every service, so for every chain head.
\<close>

theorem GetBlocks_range_limit:
  assumes "0 \<le> sint a" and "0 \<le> sint b" and "1024 < sint b - sint a"
  shows "GetBlocks s ctx a b blockArgs w =
           (Inl (ErrorString ''GetBlocks query must be smaller than size 1024''), w)"
  using assms nonneg_not_sentinel(1) [of b] sint_sub_nonneg [of a b]
  by (simp add: GetBlocks_def rpcGetBlocksLimit_def)

theorem GetBlocks_range_limit_witness:
  "GetBlocks (ex_service V1) ex_ctx 0 2000 None ex_world =
     (Inl (ErrorString ''GetBlocks query must be smaller than size 1024''), ex_world)"
  using GetBlocks_range_limit [of 0 2000 "ex_service V1" ex_ctx None ex_world]
  by simp

text \<open>
  C6. Take a call that the admission gate lets through and whose options parse, for a
  height above the chain head at which the chain has no block. On the Eth variant the
  result is the absent response with no error; on the V1 and V2 variants it is the
  block-too-high error.
\<close>

theorem GetBlockByNumber_not_yet_produced:
  assumes "fst (wait s w) = None"
      and "getBlockOptions s opts = Inr blockArgs"
      and "0 \<le> sint n"
      and "BlockChain_CurrentHeader_Number (hmy s) < n"
      and "BlockChain_GetBlockByNumber (hmy s) n = None"
  shows "(version s = Eth \<longrightarrow> fst (GetBlockByNumber s n opts w) = Inr None)
     \<and> (version s = V1 \<or> version s = V2 \<longrightarrow>
          fst (GetBlockByNumber s n opts w) = Inl ErrRequestedBlockTooHigh)"
  using assms nonneg_not_sentinel [of n]
  by (auto simp: GetBlockByNumber_def split: prod.splits option.splits)

theorem GetBlockByNumber_not_yet_produced_witness:
  "fst (GetBlockByNumber (ex_service Eth) 7 (OptBool False) ex_world) = Inr None
   \<and> fst (GetBlockByNumber (ex_service V1) 7 (OptBool False) ex_world) =
       Inl ErrRequestedBlockTooHigh"
proof -
  have a: "fst (wait (ex_service ver) ex_world) = None" for ver
    by (simp add: wait_def ex_service_fields)
  have o: "getBlockOptions (ex_service ver) (OptBool False) =
      Inr (Some \<lparr>WithSigners = False, FullTx = False, InclStaking = True\<rparr>)"
    if "ver = Eth \<or> ver = V1" for ver
    using that by (auto simp: getBlockOptions_def ex_service_fields)
  have n: "(0::int) \<le> sint (7 :: 64 word)" by simp
  have h: "BlockChain_CurrentHeader_Number (hmy (ex_service ver)) < 7" for ver
    by (simp add: ex_service_fields ex_hmy_fields)
  have b: "BlockChain_GetBlockByNumber (hmy (ex_service ver)) 7 = None" for ver
    by (simp add: ex_service_fields ex_hmy_fields)
  from GetBlockByNumber_not_yet_produced [OF a o n h b, of Eth]
       GetBlockByNumber_not_yet_produced [OF a o n h b, of V1]
  show ?thesis by (simp add: ex_service_fields)
qed

subsection \<open>Options\<close>

text \<open>
  C10. On the V1 and Eth variants a bare boolean \<open>b\<close> parses to the options with
  \<open>FullTx = b\<close>, \<open>WithSigners = False\<close> and \<open>InclStaking = True\<close>; on every variant a
  payload that already is a \<^verbatim>\<open>*BlockArgs\<close> is returned as it is.
\<close>

theorem getBlockOptions_bool_and_args:
  "(version s = V1 \<or> version s = Eth \<longrightarrow>
      getBlockOptions s (OptBool b) =
        Inr (Some \<lparr>WithSigners = False, FullTx = b, InclStaking = True\<rparr>))
   \<and> getBlockOptions s (OptBlockArgs a) = Inr a"
  by (auto simp: getBlockOptions_def)

theorem getBlockOptions_bool_and_args_witness:
  "getBlockOptions (ex_service Eth) (OptBool True) =
     Inr (Some \<lparr>WithSigners = False, FullTx = True, InclStaking = True\<rparr>)
   \<and> getBlockOptions (ex_service Eth) (OptBlockArgs None) = Inr None"
  using getBlockOptions_bool_and_args [of "ex_service Eth" True None]
  by (simp add: ex_service_fields)

subsection \<open>Signer queries\<close>

text \<open>
  C4, as the code has it. The claim says that \<^verbatim>\<open>IsBlockSigner\<close> returns false with no
  error for a block at or beyond the head. In the concrete node the head is 3:
  for block 7 the query fails with the block-too-high error, and for block 3, the head,
  it asks for the signer data of the block and returns the error of that lookup.
\<close>

theorem IsBlockSigner_beyond_head_counterexample:
  "CurrentBlock_Number (hmy (ex_service V1)) = 3
   \<and> IsBlockSigner (ex_service V1) 7 ''one1a'' ex_world =
       (Inl ErrRequestedBlockTooHigh, ex_world)
   \<and> fst (IsBlockSigner (ex_service V1) 3 ''one1a'' ex_world) =
       Inl (ErrWrap (ErrExternal 1) ''getSignerData'')"
  by (simp add: IsBlockSigner_def isBlockGreaterThanLatest_def PendingBlockNumber_def
      LatestBlockNumber_def helper_IsSigner_def helper_getSignerData_def lru_Get_def
      ex_service_fields ex_world_fields getSignerData_def ex_hmy_def ex_roster_def Let_def)

text \<open>
  C4, amended. For a concrete block number \<open>n\<close> (at least 0): when \<open>n\<close> is 0 or at or
  above the head, \<^verbatim>\<open>GetBlockSigners\<close> and \<^verbatim>\<open>GetBlockSignerKeys\<close> return the empty list
  with no error and leave the state as it was. \<^verbatim>\<open>IsBlockSigner\<close> returns false with no
  error for block 0; for a block number above the head it fails with
  \<^verbatim>\<open>ErrRequestedBlockTooHigh\<close>; for the number of the head it answers from the signer
  data of that block, through \<^verbatim>\<open>helper.IsSigner\<close>.

  The sentinels are outside the empty-or-false rule. \<^verbatim>\<open>Latest\<close> (-1) does not pass the
  test \<^verbatim>\<open>blockNum >= head\<close>: it is resolved to the head and answered by the signer
  lookup of the head, whose list, boolean or error is the result
  (\<^verbatim>\<open>GetBlockSigners\<close>: \<^verbatim>\<open>helper.GetSigners\<close> of the head block, or the error
  \<^verbatim>\<open>unknown block\<close> when the chain has no such block; \<^verbatim>\<open>GetBlockSignerKeys\<close>:
  \<^verbatim>\<open>helper.GetBLSSigners\<close>; \<^verbatim>\<open>IsBlockSigner\<close>: \<^verbatim>\<open>helper.IsSigner\<close>). \<^verbatim>\<open>Pending\<close> (-2)
  is an error in all three.
\<close>

theorem signer_queries_at_frontier:
  "(0 \<le> sint n \<and> (n = 0 \<or> sint (CurrentBlock_Number (hmy s)) \<le> sint n) \<longrightarrow>
       GetBlockSigners s n w = (Inr [], w) \<and> GetBlockSignerKeys s n w = (Inr [], w))
   \<and> IsBlockSigner s 0 address w = (Inr False, w)
   \<and> (0 < sint n \<and> CurrentBlock_Number (hmy s) < n \<longrightarrow>
       IsBlockSigner s n address w = (Inl ErrRequestedBlockTooHigh, w))
   \<and> (0 < sint n \<and> n = CurrentBlock_Number (hmy s) \<longrightarrow>
       IsBlockSigner s n address w = helper_IsSigner (helper s) address n w)
   \<and> (0 \<le> sint (CurrentBlock_Number (hmy s)) \<longrightarrow>
       GetBlockSigners s LatestBlockNumber w =
         (case BlockChain_GetBlockByNumber (hmy s) (CurrentBlock_Number (hmy s)) of
            None \<Rightarrow> (Inl (ErrorString ''unknown block''), w)
          | Some blk \<Rightarrow> helper_GetSigners (helper s) blk w)
       \<and> GetBlockSignerKeys s LatestBlockNumber w =
           helper_GetBLSSigners (helper s) (CurrentBlock_Number (hmy s)) w)
   \<and> IsBlockSigner s LatestBlockNumber address w =
       helper_IsSigner (helper s) address (BlockChain_CurrentBlock_Number (hmy s)) w
   \<and> GetBlockSigners s PendingBlockNumber w =
       (Inl (ErrorString ''cannot get signer keys for pending blocks''), w)
   \<and> GetBlockSignerKeys s PendingBlockNumber w =
       (Inl (ErrorString ''cannot get signer keys for pending blocks''), w)
   \<and> IsBlockSigner s PendingBlockNumber address w = (Inl ErrRequestedBlockTooHigh, w)"
proof -
  have ns: "n \<noteq> PendingBlockNumber \<and> n \<noteq> LatestBlockNumber" if "0 \<le> sint n"
    using that nonneg_not_sentinel [of n] by simp
  have z: "n = 0 \<Longrightarrow> sint n = 0" by simp
  have n1: "0 \<le> sint n \<and> (n = 0 \<or> sint (CurrentBlock_Number (hmy s)) \<le> sint n) \<longrightarrow>
       GetBlockSigners s n w = (Inr [], w) \<and> GetBlockSignerKeys s n w = (Inr [], w)"
    using ns z
    by (auto simp: GetBlockSigners_def GetBlockSignerKeys_def Let_def)
  have n2: "IsBlockSigner s 0 address w = (Inr False, w)"
    by (simp add: IsBlockSigner_def)
  have n3: "0 < sint n \<and> CurrentBlock_Number (hmy s) < n \<longrightarrow>
       IsBlockSigner s n address w = (Inl ErrRequestedBlockTooHigh, w)"
    using ns
    by (auto simp: IsBlockSigner_def isBlockGreaterThanLatest_def Let_def)
  have n4: "0 < sint n \<and> n = CurrentBlock_Number (hmy s) \<longrightarrow>
       IsBlockSigner s n address w = helper_IsSigner (helper s) address n w"
    using ns
    by (auto simp: IsBlockSigner_def isBlockGreaterThanLatest_def Let_def)
  have lp: "LatestBlockNumber \<noteq> PendingBlockNumber" "sint LatestBlockNumber = - 1"
    "sint PendingBlockNumber = - 2"
    by (simp_all add: LatestBlockNumber_def PendingBlockNumber_def)
  have latest:
    "0 \<le> sint (CurrentBlock_Number (hmy s)) \<longrightarrow>
       GetBlockSigners s LatestBlockNumber w =
         (case BlockChain_GetBlockByNumber (hmy s) (CurrentBlock_Number (hmy s)) of
            None \<Rightarrow> (Inl (ErrorString ''unknown block''), w)
          | Some blk \<Rightarrow> helper_GetSigners (helper s) blk w)
       \<and> GetBlockSignerKeys s LatestBlockNumber w =
           helper_GetBLSSigners (helper s) (CurrentBlock_Number (hmy s)) w"
    using lp
    by (simp add: GetBlockSigners_def GetBlockSignerKeys_def isBlockGreaterThanLatest_def
        Let_def)
  have latest_is: "IsBlockSigner s LatestBlockNumber address w =
       helper_IsSigner (helper s) address (BlockChain_CurrentBlock_Number (hmy s)) w"
    using lp by (simp add: IsBlockSigner_def isBlockGreaterThanLatest_def Let_def)
  have pending: "GetBlockSigners s PendingBlockNumber w =
       (Inl (ErrorString ''cannot get signer keys for pending blocks''), w)"
    "GetBlockSignerKeys s PendingBlockNumber w =
       (Inl (ErrorString ''cannot get signer keys for pending blocks''), w)"
    "IsBlockSigner s PendingBlockNumber address w = (Inl ErrRequestedBlockTooHigh, w)"
    using lp
    by (simp_all add: GetBlockSigners_def GetBlockSignerKeys_def IsBlockSigner_def
        isBlockGreaterThanLatest_def Let_def)
  show ?thesis
    by (intro conjI) (rule n1 n2 n3 n4 latest latest_is pending)+
qed

theorem signer_queries_at_frontier_witness:
  "GetBlockSigners (ex_service V2) 3 ex_world = (Inr [], ex_world)
   \<and> GetBlockSignerKeys (ex_service V2) 3 ex_world = (Inr [], ex_world)
   \<and> IsBlockSigner (ex_service V2) 0 ''one1a'' ex_world = (Inr False, ex_world)
   \<and> IsBlockSigner (ex_service V2) 4 ''one1a'' ex_world =
       (Inl ErrRequestedBlockTooHigh, ex_world)
   \<and> fst (IsBlockSigner (ex_service V2) 3 ''one1a'' ex_world) =
       Inl (ErrWrap (ErrExternal 1) ''getSignerData'')
   \<and> fst (GetBlockSigners (ex_service V2) LatestBlockNumber ex_world) =
       Inl (ErrWrap (ErrExternal 1) ''getSignerData'')
   \<and> fst (GetBlockSignerKeys (ex_service V2) LatestBlockNumber ex_world) =
       Inl (ErrWrap (ErrExternal 1) ''getSignerData'')
   \<and> fst (IsBlockSigner (ex_service V2) LatestBlockNumber ''one1a'' ex_world) =
       Inl (ErrWrap (ErrExternal 1) ''getSignerData'')
   \<and> fst (GetBlockSigners (ex_service V2) PendingBlockNumber ex_world) =
       Inl (ErrorString ''cannot get signer keys for pending blocks'')"
proof -
  have e: "fst (helper_IsSigner (helper (ex_service V2)) ''one1a'' 3 ex_world) =
      Inl (ErrWrap (ErrExternal 1) ''getSignerData'')"
    "fst (helper_GetBLSSigners (helper (ex_service V2)) 3 ex_world) =
      Inl (ErrWrap (ErrExternal 1) ''getSignerData'')"
    "fst (helper_GetSigners (helper (ex_service V2))
        \<lparr>NumberU64 = 3, Coinbase = 1, Epoch = 1\<rparr> ex_world) =
      Inl (ErrWrap (ErrExternal 1) ''getSignerData'')"
    by (simp_all add: helper_IsSigner_def helper_GetBLSSigners_def helper_GetSigners_def
        helper_getSignerData_def lru_Get_def ex_service_fields ex_world_fields
        getSignerData_def ex_hmy_fields Let_def)
  have h: "(0::int) \<le> sint (CurrentBlock_Number (hmy (ex_service V2)))"
    by (simp add: ex_service_fields ex_hmy_fields)
  from signer_queries_at_frontier [of 3 "ex_service V2" ex_world "''one1a''"]
    signer_queries_at_frontier [of 4 "ex_service V2" ex_world "''one1a''"] e h
  show ?thesis by (simp add: ex_service_fields ex_hmy_fields)
qed

text \<open>
  C2, as the code has it. The concrete node is before its staking epoch and the
  validator \<open>one1a\<close> signed blocks 1 and 2 of the window 0 to 3: the loop of
  \<^verbatim>\<open>GetSignedBlocks\<close> counts 2, and the response is 0.
\<close>

theorem GetSignedBlocks_ignores_tally:
  "IsStaking (hmy (ex_service V1)) (CurrentBlock_Epoch (hmy (ex_service V1))) = False
   \<and> map_option fst (GetSignedBlocks_loop (ex_service V1) ''one1a'' 3 0 0 ex_world) = Some 2
   \<and> map_option fst (GetSignedBlocks (ex_service V1) ''one1a'' ex_world) =
       Some (Inr (HexUint64 0))"
  by (simp add: GetSignedBlocks_def GetSignedBlocks_loop.simps IsBlockSigner_def
      isBlockGreaterThanLatest_def ex_service_fields ex_hmy_fields PendingBlockNumber_def
      LatestBlockNumber_def helper_IsSigner_def helper_getSignerData_def lru_Get_def
      lru_Add_def lru_remove_def Let_def ex_world_fields getSignerData_def ex_roster_def
      ex_hmy_def)

subsection \<open>The admission gate\<close>

text \<open>
  C1, as the code has it. Whatever \<^verbatim>\<open>limiterEnable\<close> and \<^verbatim>\<open>limit\<close> are, the service
  that \<^verbatim>\<open>NewPublicBlockchainAPI\<close> builds has a nil limiter, so \<^verbatim>\<open>wait\<close> returns nil
  at once. In the concrete node, whose limiter at rate 0 would run into the deadline at
  every call, \<^verbatim>\<open>wait\<close> of the service built with the limiter enabled at rate 0
  succeeds.
\<close>

theorem limiter_enabled_wait_succeeds:
  "limiter (fst (NewPublicBlockchainAPI h ver limiterEnable limit)) = None
   \<and> wait (fst (NewPublicBlockchainAPI h ver limiterEnable limit)) w =
       (None, w\<lparr>waitCalls := Suc (waitCalls w)\<rparr>)
   \<and> limiter_Wait ex_hmy (rate_NewLimiter 0 1) k =
       Some (ErrorString ''context deadline exceeded'')
   \<and> fst (wait (fst (NewPublicBlockchainAPI ex_hmy V1 True 0)) ex_world) = None"
  by (simp add: NewPublicBlockchainAPI_def wait_def Let_def ex_hmy_fields)

text \<open>
  C5, as the code has it. The claim says that a query that touches the caches enters
  \<^verbatim>\<open>wait\<close> exactly once. In the concrete node \<^verbatim>\<open>GetBlocks(1, 3)\<close> enters it three
  times, and \<^verbatim>\<open>GetBlockSigners(2)\<close>, which fills the signer cache, never enters it.
\<close>

theorem wait_calls_counterexample:
  "waitCalls ex_world = 0
   \<and> waitCalls (snd (GetBlocks (ex_service V1) ex_ctx 1 3 None ex_world)) = 3
   \<and> fst (GetBlockSigners (ex_service V1) 2 ex_world) = Inr [''one1a'', ''one1d'']
   \<and> waitCalls (snd (GetBlockSigners (ex_service V1) 2 ex_world)) = 0"
  by (simp add: GetBlocks_def GetBlockByNumber_def wait_def getBlockOptions_def
      ex_service_fields ex_hmy_fields PendingBlockNumber_def LatestBlockNumber_def
      rpcGetBlocksLimit_def ex_ctx_def Let_def ex_world_fields
      GetBlockSigners_def isBlockGreaterThanLatest_def helper_GetSigners_def
      helper_getSignerData_def lru_Get_def ex_getSignerData)

text \<open>
  C5, amended. \<^verbatim>\<open>GetBlockByNumber\<close> enters \<^verbatim>\<open>wait\<close> exactly once per call.
  \<^verbatim>\<open>GetBlocks\<close> has no call of its own and goes through \<^verbatim>\<open>GetBlockByNumber\<close> for each
  block: when it succeeds it has entered \<^verbatim>\<open>wait\<close> once for every block number from
  the start of the range up to the smaller of the end of the range and the head.
  \<^verbatim>\<open>GetBlockSigners\<close>, \<^verbatim>\<open>GetBlockSignerKeys\<close> and \<^verbatim>\<open>IsBlockSigner\<close> never enter it.
\<close>

theorem wait_calls_per_query:
  "waitCalls (snd (GetBlockByNumber s n opts w)) = Suc (waitCalls w)
   \<and> (GetBlocks s ctx a b blockArgs w = (Inr res, w') \<longrightarrow>
        waitCalls w' = waitCalls w
          + nat (min (sint (if b = LatestBlockNumber
                            then BlockChain_CurrentHeader_Number (hmy s) else b))
                     (sint (CurrentBlock_Number (hmy s))) + 1 - sint a))
   \<and> waitCalls (snd (GetBlockSigners s n w)) = waitCalls w
   \<and> waitCalls (snd (GetBlockSignerKeys s n w)) = waitCalls w
   \<and> waitCalls (snd (IsBlockSigner s n address w)) = waitCalls w"
proof -
  have "waitCalls w' = waitCalls w
          + nat (min (sint (if b = LatestBlockNumber
                            then BlockChain_CurrentHeader_Number (hmy s) else b))
                     (sint (CurrentBlock_Number (hmy s))) + 1 - sint a)"
    if g: "GetBlocks s ctx a b blockArgs w = (Inr res, w')"
  proof -
    let ?blockEnd = "if b = LatestBlockNumber
                     then BlockChain_CurrentHeader_Number (hmy s) else b"
    from g have "GetBlocks_loop s ctx blockArgs ?blockEnd a [] w = (Inr res, w')"
      by (simp add: GetBlocks_def Let_def split: if_splits)
    from GetBlocks_loop_waitCalls [OF this] show ?thesis .
  qed
  then show ?thesis
    by (simp add: GetBlockByNumber_waitCalls signer_queries_waitCalls)
qed

theorem wait_calls_per_query_witness:
  "fst (GetBlocks (ex_service Eth) ex_ctx 2 9 None ex_world) = Inr [2, 3]
   \<and> waitCalls (snd (GetBlocks (ex_service Eth) ex_ctx 2 9 None ex_world)) = 2"
proof -
  have r: "fst (GetBlocks (ex_service Eth) ex_ctx 2 9 None ex_world) = Inr [2, 3]"
    by (simp add: GetBlocks_def GetBlockByNumber_def wait_def getBlockOptions_def
        ex_service_fields ex_hmy_fields PendingBlockNumber_def LatestBlockNumber_def
        rpcGetBlocksLimit_def ex_ctx_def Let_def)
  then have "GetBlocks (ex_service Eth) ex_ctx 2 9 None ex_world =
      (Inr [2, 3], snd (GetBlocks (ex_service Eth) ex_ctx 2 9 None ex_world))"
    by (metis prod.collapse)
  with wait_calls_per_query [of "ex_service Eth" _ _ ex_world ex_ctx 2 9 None "[2, 3]"
      "snd (GetBlocks (ex_service Eth) ex_ctx 2 9 None ex_world)"]
  have "waitCalls (snd (GetBlocks (ex_service Eth) ex_ctx 2 9 None ex_world)) =
      waitCalls ex_world + nat (min (sint (9 :: 64 word)) (sint (3 :: 64 word)) + 1 - sint (2 :: 64 word))"
    by (simp add: LatestBlockNumber_def ex_service_fields ex_hmy_fields)
  with r show ?thesis by (simp add: ex_world_fields)
qed

end
